theory Spec2Isabelle
  imports Main
begin

section \<open>JavaScript values seen by the client\<close>

text \<open>
  The module \<^verbatim>\<open>wit-ai.js\<close> handles three kinds of run-time values: the
  arguments it copies into the request, the first argument of the request callback (the
  transport error, or \<^verbatim>\<open>null\<close>), and the value \<^verbatim>\<open>JSON.parse\<close> returns.
  One datatype covers them.

  \<^item> \<open>JNumber\<close> carries a number as the decimal text JavaScript prints for it
    (\<^verbatim>\<open>String(x)\<close>: \<open>''42''\<close>, \<open>''0.5''\<close>, \<open>''NaN''\<close>); the module never
    computes with numbers, it only prints and tests them.
  \<^item> \<open>JObject\<close> lists the own properties of a plain object in insertion order; a
    lookup takes the first entry of a key.
  \<^item> \<open>JError m\<close> is an \<^verbatim>\<open>Error\<close> object with message \<open>m\<close>.
\<close>

datatype js_value =
    JUndefined
  | JNull
  | JBool bool
  | JNumber string
  | JString string
  | JArray "js_value list"
  | JObject "(string \<times> js_value) list"
  | JError string

text \<open>The exceptions the runtime raises in the code under study.\<close>

datatype exn = SyntaxError | TypeError

text \<open>
  An expression either yields a value or throws (the completion records of the
  language definition).
\<close>

datatype 'a completion = Normal 'a | Throw exn

text \<open>\<^verbatim>\<open>if (v)\<close>: the falsy values are undefined, null, false, 0, NaN and the empty string.\<close>

fun truthy :: "js_value \<Rightarrow> bool" where
  "truthy JUndefined = False"
| "truthy JNull = False"
| "truthy (JBool b) = b"
| "truthy (JNumber s) = (s \<noteq> ''0'' \<and> s \<noteq> ''NaN'')"
| "truthy (JString s) = (s \<noteq> [])"
| "truthy (JArray xs) = True"
| "truthy (JObject ps) = True"
| "truthy (JError m) = True"

text \<open>
  String conversion, as a template literal \<^verbatim>\<open>`${v}`\<close> applies it.

  \<^item> A plain object is converted by the first callable of its \<^verbatim>\<open>toString\<close> and
    \<^verbatim>\<open>valueOf\<close> that returns a primitive. The inherited \<^verbatim>\<open>toString\<close> returns
    \<^verbatim>\<open>[object Object]\<close>. An own property \<^verbatim>\<open>toString\<close> hides it; the values of
    this model are not callable, and \<^verbatim>\<open>valueOf\<close> (own, or the inherited one, which
    returns the object itself) gives no primitive either, so the conversion throws a
    TypeError.
  \<^item> An array is converted by \<^verbatim>\<open>join(",")\<close>, where an undefined or null element
    counts as the empty string.
  \<^item> An \<^verbatim>\<open>Error\<close> prints its name and message.
\<close>

fun to_string :: "js_value \<Rightarrow> string completion"
  and join :: "js_value list \<Rightarrow> string completion" where
  "to_string JUndefined = Normal ''undefined''"
| "to_string JNull = Normal ''null''"
| "to_string (JBool b) = Normal (if b then ''true'' else ''false'')"
| "to_string (JNumber s) = Normal s"
| "to_string (JString s) = Normal s"
| "to_string (JArray xs) = join xs"
| "to_string (JObject ps) =
     (if ''toString'' \<in> set (map fst ps) then Throw TypeError
      else Normal ''[object Object]'')"
| "to_string (JError m) = Normal (if m = [] then ''Error'' else ''Error: '' @ m)"
| "join [] = Normal []"
| "join (x # xs) =
     (case (if x = JUndefined \<or> x = JNull then Normal [] else to_string x) of
        Throw e \<Rightarrow> Throw e
      | Normal s \<Rightarrow>
          (if xs = [] then Normal s
           else (case join xs of
                   Throw e \<Rightarrow> Throw e
                 | Normal t \<Rightarrow> Normal (s @ '','' @ t))))"

text \<open>
  Property read \<^verbatim>\<open>v.k\<close>, for a name \<open>k\<close> that no built-in prototype defines and
  that is no index, \<^verbatim>\<open>length\<close> or \<^verbatim>\<open>message\<close>; the module reads \<^verbatim>\<open>error\<close> and
  \<^verbatim>\<open>code\<close> only. Reading a property of undefined or null throws a TypeError; an
  absent property reads as undefined.
\<close>

fun get :: "js_value \<Rightarrow> string \<Rightarrow> js_value completion" where
  "get JUndefined k = Throw TypeError"
| "get JNull k = Throw TypeError"
| "get (JObject ps) k = Normal (case map_of ps k of None \<Rightarrow> JUndefined | Some v \<Rightarrow> v)"
| "get v k = Normal JUndefined"

section \<open>The module\<close>

subsection \<open>isError\<close>

text \<open>
  \<^verbatim>\<open>const isError = res => res.error !== undefined && res.code !== undefined\<close>

  The right operand is evaluated only when the left one is true.
\<close>

definition isError :: "js_value \<Rightarrow> bool completion" where
  "isError res =
     (case get res ''error'' of
        Throw e \<Rightarrow> Throw e
      | Normal x \<Rightarrow>
          (if x \<noteq> JUndefined
           then (case get res ''code'' of
                   Throw e \<Rightarrow> Throw e
                 | Normal y \<Rightarrow> Normal (y \<noteq> JUndefined))
           else Normal False))"

text \<open>
  Two readings of "the response contains the field", to compare \<^verbatim>\<open>isError\<close> with.
  \<open>has_field res k\<close>: \<open>res\<close> is an object with a property \<open>k\<close> (JSON text cannot
  give a property the value undefined). \<open>string_field res k\<close>: moreover the value is a
  string. \<open>spec_error_shape\<close> is the error shape in the words of the specification: a JSON
  object containing both an \<^verbatim>\<open>error\<close> string and a \<^verbatim>\<open>code\<close> string.
\<close>

definition has_field :: "js_value \<Rightarrow> string \<Rightarrow> bool" where
  "has_field res k =
     (case res of
        JObject ps \<Rightarrow> (case map_of ps k of None \<Rightarrow> False | Some v \<Rightarrow> v \<noteq> JUndefined)
      | _ \<Rightarrow> False)"

definition string_field :: "js_value \<Rightarrow> string \<Rightarrow> bool" where
  "string_field res k =
     (case res of
        JObject ps \<Rightarrow> (case map_of ps k of Some (JString s) \<Rightarrow> True | _ \<Rightarrow> False)
      | _ \<Rightarrow> False)"

definition spec_error_shape :: "js_value \<Rightarrow> bool" where
  "spec_error_shape res = (string_field res ''error'' \<and> string_field res ''code'')"

subsection \<open>The request options\<close>

text \<open>
  The options object handed to \<^verbatim>\<open>request\<close>. Headers and query parameters keep the
  order of the object literals. The audio payload is opaque to the module, hence the
  type parameter. The fields \<^verbatim>\<open>method\<close> and \<^verbatim>\<open>body\<close> are written \<open>method'\<close>
  and \<open>body'\<close>; \<open>body' = None\<close> is an options object without a \<^verbatim>\<open>body\<close> key.

  The parameters that are copied into the query string are arbitrary values (an argument
  left out is undefined). The credential is a string, as its JSDoc says, so that
  \<^verbatim>\<open>"Bearer " + token\<close> is the concatenation of two strings.
\<close>

record 'b options =
  url :: string
  method' :: string
  headers :: "(string \<times> string) list"
  qs :: "(string \<times> js_value) list"
  body' :: "'b option"

definition speech_options ::
  "string \<Rightarrow> 'b \<Rightarrow> js_value \<Rightarrow> js_value \<Rightarrow> js_value \<Rightarrow> js_value \<Rightarrow> 'b options" where
  "speech_options token bin context msg_id thread_id n =
     \<lparr> url = ''https://api.wit.ai/speech'',
       method' = ''POST'',
       headers = [(''Content-Type'', ''audio/wav''),
                  (''Authorization'', ''Bearer '' @ token),
                  (''Accept'', ''application/json'')],
       qs = [(''context'', context), (''msg_id'', msg_id), (''n'', n)],
       body' = Some bin \<rparr>"

definition stream_options ::
  "string \<Rightarrow> 'b \<Rightarrow> js_value \<Rightarrow> js_value \<Rightarrow> js_value \<Rightarrow> js_value \<Rightarrow> 'b options" where
  "stream_options token stream context msg_id thread_id n =
     \<lparr> url = ''https://api.wit.ai/speech'',
       method' = ''POST'',
       headers = [(''Content-Type'', ''audio/wav''),
                  (''Transfer-encoding'', ''chunked''),
                  (''Authorization'', ''Bearer '' @ token),
                  (''Accept'', ''application/json'')],
       qs = [(''context'', context), (''msg_id'', msg_id), (''n'', n)],
       body' = Some stream \<rparr>"

definition text_options ::
  "string \<Rightarrow> js_value \<Rightarrow> js_value \<Rightarrow> js_value \<Rightarrow> js_value \<Rightarrow> js_value \<Rightarrow> js_value
     \<Rightarrow> 'b options" where
  "text_options token q context msg_id thread_id n verbose =
     \<lparr> url = ''https://api.wit.ai/message'',
       method' = ''GET'',
       headers = [(''Authorization'', ''Bearer '' @ token),
                  (''Accept'', ''application/json'')],
       qs = [(''q'', q), (''context'', context), (''msg_id'', msg_id), (''n'', n),
             (''verbose'', verbose)],
       body' = None \<rparr>"

subsection \<open>The response handlers\<close>

text \<open>
  The template literal \<^verbatim>\<open>`${response.code}: ${response.error}`\<close>, which the three
  handlers share: each substitution is read and converted to a string before the next
  one is evaluated.
\<close>

definition error_text :: "js_value \<Rightarrow> string completion" where
  "error_text response =
     (case get response ''code'' of
        Throw e \<Rightarrow> Throw e
      | Normal c \<Rightarrow>
          (case to_string c of
             Throw e \<Rightarrow> Throw e
           | Normal sc \<Rightarrow>
               (case get response ''error'' of
                  Throw e \<Rightarrow> Throw e
                | Normal x \<Rightarrow>
                    (case to_string x of
                       Throw e \<Rightarrow> Throw e
                     | Normal sx \<Rightarrow> Normal (sc @ '': '' @ sx)))))"

text \<open>
  What one run of a handler does to the promise: it calls \<^verbatim>\<open>resolve\<close>, or it calls
  \<^verbatim>\<open>reject\<close>, or an exception leaves the handler. The handler runs as a callback of
  \<^verbatim>\<open>request\<close>, after the promise executor has returned, so nothing catches that
  exception and the promise is never settled.
\<close>

datatype outcome = Resolved js_value | Rejected js_value | Uncaught exn

text \<open>
  \<^verbatim>\<open>JSON.parse\<close> belongs to the runtime. The handlers take it as the parameter
  \<open>JSON_parse\<close>, so that what is proved holds for whatever the runtime's parser does.
  \<^verbatim>\<open>
  const handler = (error, res, body) =>
  {
      if(error) return reject(error)
      const response = JSON.parse(body)
      if(isError(response)) return reject(new Error(`${response.code}: ${response.error}`))
      return resolve(response)
  }
  \<close>
  The source repeats this text in \<^verbatim>\<open>speech\<close>, \<^verbatim>\<open>stream\<close> and \<^verbatim>\<open>text\<close>.
\<close>

definition speech_handler ::
  "(string \<Rightarrow> js_value completion) \<Rightarrow> js_value \<Rightarrow> 'r \<Rightarrow> string \<Rightarrow> outcome" where
  "speech_handler JSON_parse error res body =
     (if truthy error then Rejected error
      else (case JSON_parse body of
              Throw e \<Rightarrow> Uncaught e
            | Normal response \<Rightarrow>
                (case isError response of
                   Throw e \<Rightarrow> Uncaught e
                 | Normal True \<Rightarrow>
                     (case error_text response of
                        Throw e \<Rightarrow> Uncaught e
                      | Normal m \<Rightarrow> Rejected (JError m))
                 | Normal False \<Rightarrow> Resolved response)))"

definition stream_handler ::
  "(string \<Rightarrow> js_value completion) \<Rightarrow> js_value \<Rightarrow> 'r \<Rightarrow> string \<Rightarrow> outcome" where
  "stream_handler JSON_parse error res body =
     (if truthy error then Rejected error
      else (case JSON_parse body of
              Throw e \<Rightarrow> Uncaught e
            | Normal response \<Rightarrow>
                (case isError response of
                   Throw e \<Rightarrow> Uncaught e
                 | Normal True \<Rightarrow>
                     (case error_text response of
                        Throw e \<Rightarrow> Uncaught e
                      | Normal m \<Rightarrow> Rejected (JError m))
                 | Normal False \<Rightarrow> Resolved response)))"

definition text_handler ::
  "(string \<Rightarrow> js_value completion) \<Rightarrow> js_value \<Rightarrow> 'r \<Rightarrow> string \<Rightarrow> outcome" where
  "text_handler JSON_parse error res body =
     (if truthy error then Rejected error
      else (case JSON_parse body of
              Throw e \<Rightarrow> Uncaught e
            | Normal response \<Rightarrow>
                (case isError response of
                   Throw e \<Rightarrow> Uncaught e
                 | Normal True \<Rightarrow>
                     (case error_text response of
                        Throw e \<Rightarrow> Uncaught e
                      | Normal m \<Rightarrow> Rejected (JError m))
                 | Normal False \<Rightarrow> Resolved response)))"

subsection \<open>The three operations\<close>

text \<open>
  \<^verbatim>\<open>request(options, handler)\<close> sends the request and later calls the handler once,
  with the transport error (or null), the response object and the response body. The
  network is the parameter \<open>request\<close>: a function from the options to those three
  callback arguments. The value of an operation is the outcome of its promise. (A
  \<^verbatim>\<open>request\<close> that throws before it returns, or never calls back, is not modelled.)
  \<^verbatim>\<open>text\<close> is written \<open>text'\<close>, and the second parameter of \<^verbatim>\<open>stream\<close>, which
  the source names \<^verbatim>\<open>stream\<close> too, \<open>stream'\<close>.
\<close>

definition speech ::
  "(string \<Rightarrow> js_value completion) \<Rightarrow> ('b options \<Rightarrow> js_value \<times> 'r \<times> string) \<Rightarrow>
     string \<Rightarrow> 'b \<Rightarrow> js_value \<Rightarrow> js_value \<Rightarrow> js_value \<Rightarrow> js_value \<Rightarrow> outcome" where
  "speech JSON_parse request token bin context msg_id thread_id n =
     (let options = speech_options token bin context msg_id thread_id n
      in (case request options of
            (error, res, body) \<Rightarrow> speech_handler JSON_parse error res body))"

definition stream ::
  "(string \<Rightarrow> js_value completion) \<Rightarrow> ('b options \<Rightarrow> js_value \<times> 'r \<times> string) \<Rightarrow>
     string \<Rightarrow> 'b \<Rightarrow> js_value \<Rightarrow> js_value \<Rightarrow> js_value \<Rightarrow> js_value \<Rightarrow> outcome" where
  "stream JSON_parse request token stream' context msg_id thread_id n =
     (let options = stream_options token stream' context msg_id thread_id n
      in (case request options of
            (error, res, body) \<Rightarrow> stream_handler JSON_parse error res body))"

definition text' ::
  "(string \<Rightarrow> js_value completion) \<Rightarrow> ('b options \<Rightarrow> js_value \<times> 'r \<times> string) \<Rightarrow>
     string \<Rightarrow> js_value \<Rightarrow> js_value \<Rightarrow> js_value \<Rightarrow> js_value \<Rightarrow> js_value \<Rightarrow> js_value \<Rightarrow>
     outcome" where
  "text' JSON_parse request token q context msg_id thread_id n verbose =
     (let options = text_options token q context msg_id thread_id n verbose
      in (case request options of
            (error, res, body) \<Rightarrow> text_handler JSON_parse error res body))"

subsection \<open>A runtime for concrete runs\<close>

text \<open>
  To run an operation on concrete inputs, the two parameters need values.
  \<open>parse_table\<close> describes \<^verbatim>\<open>JSON.parse\<close> on finitely many texts: each listed text
  parses to the value beside it, and every other text is refused with a SyntaxError, as
  \<^verbatim>\<open>JSON.parse\<close> refuses text that is not JSON. \<open>answer\<close> is a transport that
  completes every request with the given error and response body.
\<close>

definition parse_table :: "(string \<times> js_value) list \<Rightarrow> string \<Rightarrow> js_value completion" where
  "parse_table t body = (case map_of t body of None \<Rightarrow> Throw SyntaxError | Some v \<Rightarrow> Normal v)"

definition answer :: "js_value \<Rightarrow> string \<Rightarrow> 'b options \<Rightarrow> js_value \<times> unit \<times> string" where
  "answer error body options = (error, (), body)"

section \<open>Properties\<close>

subsection \<open>The handlers and the operations\<close>

text \<open>The three handlers are one function, and none of them looks at the response object.\<close>

lemma stream_handler_eq:
  "stream_handler JSON_parse error res body = speech_handler JSON_parse error res' body"
  by (simp add: stream_handler_def speech_handler_def)

lemma text_handler_eq:
  "text_handler JSON_parse error res body = speech_handler JSON_parse error res' body"
  by (simp add: text_handler_def speech_handler_def)

text \<open>
  An operation is its handler, run on what the transport delivers for its options. The
  response object plays no part, so the unit value stands for it.
\<close>

lemma speech_run:
  "request (speech_options token bin ctx msg_id thread_id n) = (error, res, body) \<Longrightarrow>
   speech JSON_parse request token bin ctx msg_id thread_id n
     = speech_handler JSON_parse error () body"
  by (simp add: speech_def Let_def speech_handler_def)

lemma stream_run:
  "request (stream_options token src ctx msg_id thread_id n) = (error, res, body) \<Longrightarrow>
   stream JSON_parse request token src ctx msg_id thread_id n
     = speech_handler JSON_parse error () body"
  by (simp add: stream_def Let_def stream_handler_eq [where res' = "()"])

lemma text_run:
  "request (text_options token q ctx msg_id thread_id n verbose) = (error, res, body) \<Longrightarrow>
   text' JSON_parse request token q ctx msg_id thread_id n verbose
     = speech_handler JSON_parse error () body"
  by (simp add: text'_def Let_def text_handler_eq [where res' = "()"])

text \<open>The path through a handler that builds the combined error.\<close>

lemma isError_both:
  "get response ''code'' = Normal c \<Longrightarrow> c \<noteq> JUndefined \<Longrightarrow>
   get response ''error'' = Normal x \<Longrightarrow> x \<noteq> JUndefined \<Longrightarrow> isError response = Normal True"
  by (simp add: isError_def)

lemma handler_api_error:
  assumes "\<not> truthy error" and "JSON_parse body = Normal response"
    and "get response ''code'' = Normal c" and "c \<noteq> JUndefined" and "to_string c = Normal sc"
    and "get response ''error'' = Normal x" and "x \<noteq> JUndefined" and "to_string x = Normal sx"
  shows "speech_handler JSON_parse error res body = Rejected (JError (sc @ '': '' @ sx))"
  using assms by (simp add: speech_handler_def isError_both error_text_def)

subsection \<open>API errors\<close>

text \<open>
  Claim C1, as amended. When there is no transport error and the parsed response has an
  \<^verbatim>\<open>error\<close> field and a \<^verbatim>\<open>code\<close> field whose values convert to strings, each of
  \<^verbatim>\<open>speech\<close>, \<^verbatim>\<open>stream\<close> and \<^verbatim>\<open>text\<close> rejects with an \<^verbatim>\<open>Error\<close> whose message is
  the string form of the code, a colon and a space, then the string form of the error
  field. A string converts to itself, so string fields appear verbatim.
\<close>

theorem api_error_rejected:
  fixes request :: "'b options \<Rightarrow> js_value \<times> 'r \<times> string"
  assumes "\<not> truthy error" and "JSON_parse body = Normal response"
    and "get response ''code'' = Normal c" and "c \<noteq> JUndefined" and "to_string c = Normal sc"
    and "get response ''error'' = Normal x" and "x \<noteq> JUndefined" and "to_string x = Normal sx"
  shows "(request (speech_options token bin ctx msg_id thread_id n) = (error, res, body) \<longrightarrow>
            speech JSON_parse request token bin ctx msg_id thread_id n
              = Rejected (JError (sc @ '': '' @ sx)))
       \<and> (request (stream_options token src ctx msg_id thread_id n) = (error, res, body) \<longrightarrow>
            stream JSON_parse request token src ctx msg_id thread_id n
              = Rejected (JError (sc @ '': '' @ sx)))
       \<and> (request (text_options token q ctx msg_id thread_id n verbose) = (error, res, body) \<longrightarrow>
            text' JSON_parse request token q ctx msg_id thread_id n verbose
              = Rejected (JError (sc @ '': '' @ sx)))"
proof -
  have "speech_handler JSON_parse error () body = Rejected (JError (sc @ '': '' @ sx))"
    using assms by (rule handler_api_error)
  then show ?thesis
    by (simp add: speech_run stream_run text_run)
qed

text \<open>
  The example of the specification: for the response
  \<^verbatim>\<open>{"code":"bad-auth","error":"invalid token"}\<close> the three operations reject with the
  message \<^verbatim>\<open>bad-auth: invalid token\<close>.
\<close>

theorem api_error_rejected_witness:
  \<open>speech (parse_table [(''{"code":"bad-auth","error":"invalid token"}'',
                         JObject [(''code'', JString ''bad-auth''),
                                  (''error'', JString ''invalid token'')])])
          (answer JNull ''{"code":"bad-auth","error":"invalid token"}'')
          ''secret'' ''RIFF'' JUndefined JUndefined JUndefined JUndefined
     = Rejected (JError ''bad-auth: invalid token'')
   \<and> stream (parse_table [(''{"code":"bad-auth","error":"invalid token"}'',
                         JObject [(''code'', JString ''bad-auth''),
                                  (''error'', JString ''invalid token'')])])
          (answer JNull ''{"code":"bad-auth","error":"invalid token"}'')
          ''secret'' ''RIFF'' JUndefined JUndefined JUndefined JUndefined
     = Rejected (JError ''bad-auth: invalid token'')
   \<and> text' (parse_table [(''{"code":"bad-auth","error":"invalid token"}'',
                        JObject [(''code'', JString ''bad-auth''),
                                 (''error'', JString ''invalid token'')])])
         (answer JNull ''{"code":"bad-auth","error":"invalid token"}'' :: string options \<Rightarrow> _)
         ''secret'' (JString ''hello'') JUndefined JUndefined JUndefined JUndefined JUndefined
     = Rejected (JError ''bad-auth: invalid token'')\<close>
  using api_error_rejected
    [where error = JNull and body = \<open>''{"code":"bad-auth","error":"invalid token"}''\<close>
       and JSON_parse = \<open>parse_table [(''{"code":"bad-auth","error":"invalid token"}'',
                        JObject [(''code'', JString ''bad-auth''),
                                 (''error'', JString ''invalid token'')])]\<close>
       and response = "JObject [(''code'', JString ''bad-auth''),
                                 (''error'', JString ''invalid token'')]"
       and c = "JString ''bad-auth''" and sc = "''bad-auth''"
       and x = "JString ''invalid token''" and sx = "''invalid token''"
       and request = \<open>answer JNull ''{"code":"bad-auth","error":"invalid token"}''\<close>
       and res = "()" and token = "''secret''" and q = "JString ''hello''"
       and bin = "''RIFF''" and src = "''RIFF''"
       and ctx = JUndefined and msg_id = JUndefined and thread_id = JUndefined
       and n = JUndefined and verbose = JUndefined]
  by (simp add: parse_table_def answer_def)

text \<open>
  Claim C1 as stated covers every parsed response that has both fields. The response
  \<^verbatim>\<open>{"code":{"toString":null},"error":"x"}\<close> has both, and \<^verbatim>\<open>isError\<close> says so, but
  its code cannot be converted to a string: the template literal throws a TypeError and
  nothing is rejected.
\<close>

theorem api_error_uncaught:
  \<open>isError (JObject [(''code'', JObject [(''toString'', JNull)]), (''error'', JString ''x'')])
     = Normal True
   \<and> text' (parse_table [(''{"code":{"toString":null},"error":"x"}'',
                          JObject [(''code'', JObject [(''toString'', JNull)]),
                                   (''error'', JString ''x'')])])
         (answer JNull ''{"code":{"toString":null},"error":"x"}'')
         ''secret'' (JString ''hello'') JUndefined JUndefined JUndefined JUndefined JUndefined
     = Uncaught TypeError\<close>
  by (simp add: isError_def text'_def text_handler_def error_text_def parse_table_def answer_def)

subsection \<open>The outcomes of an invocation\<close>





subsection \<open>Successful responses\<close>

text \<open>A parsed value other than null that lacks one of the two fields is no API error.\<close>

lemma handler_resolved:
  assumes "\<not> truthy error" and "JSON_parse body = Normal response"
    and "response \<noteq> JNull" and "response \<noteq> JUndefined"
    and "\<not> (has_field response ''error'' \<and> has_field response ''code'')"
  shows "speech_handler JSON_parse error res body = Resolved response"
proof -
  have "isError response = Normal False"
    using assms(3-5)
    by (cases response) (auto simp: isError_def has_field_def split: option.splits)
  then show ?thesis
    using assms(1,2) by (simp add: speech_handler_def)
qed

text \<open>
  Claim C3, as amended. When there is no transport error and the body is well-formed
  JSON whose value is not null and lacks the \<^verbatim>\<open>error\<close> field or the \<^verbatim>\<open>code\<close> field,
  each of \<^verbatim>\<open>speech\<close>, \<^verbatim>\<open>stream\<close> and \<^verbatim>\<open>text\<close> resolves with the parsed value itself.
\<close>

theorem parsed_response_resolved:
  fixes request :: "'b options \<Rightarrow> js_value \<times> 'r \<times> string"
  assumes "\<not> truthy error" and "JSON_parse body = Normal response"
    and "response \<noteq> JNull" and "response \<noteq> JUndefined"
    and "\<not> (has_field response ''error'' \<and> has_field response ''code'')"
  shows "(request (speech_options token bin ctx msg_id thread_id n) = (error, res, body) \<longrightarrow>
            speech JSON_parse request token bin ctx msg_id thread_id n = Resolved response)
       \<and> (request (stream_options token src ctx msg_id thread_id n) = (error, res, body) \<longrightarrow>
            stream JSON_parse request token src ctx msg_id thread_id n = Resolved response)
       \<and> (request (text_options token q ctx msg_id thread_id n verbose) = (error, res, body) \<longrightarrow>
            text' JSON_parse request token q ctx msg_id thread_id n verbose = Resolved response)"
proof -
  have "speech_handler JSON_parse error () body = Resolved response"
    using assms by (rule handler_resolved)
  then show ?thesis
    by (simp add: speech_run stream_run text_run)
qed

text \<open>A response that has a \<^verbatim>\<open>code\<close> but no \<^verbatim>\<open>error\<close> is handed over as it was parsed.\<close>

theorem parsed_response_resolved_witness:
  \<open>speech (parse_table [(''{"msg_id":"m1","_text":"hi","entities":{},"code":7}'',
                         JObject [(''msg_id'', JString ''m1''), (''_text'', JString ''hi''),
                                  (''entities'', JObject []), (''code'', JNumber ''7'')])])
          (answer JNull ''{"msg_id":"m1","_text":"hi","entities":{},"code":7}'')
          ''secret'' ''RIFF'' JUndefined JUndefined JUndefined JUndefined
     = Resolved (JObject [(''msg_id'', JString ''m1''), (''_text'', JString ''hi''),
                          (''entities'', JObject []), (''code'', JNumber ''7'')])
   \<and> stream (parse_table [(''{"msg_id":"m1","_text":"hi","entities":{},"code":7}'',
                         JObject [(''msg_id'', JString ''m1''), (''_text'', JString ''hi''),
                                  (''entities'', JObject []), (''code'', JNumber ''7'')])])
          (answer JNull ''{"msg_id":"m1","_text":"hi","entities":{},"code":7}'')
          ''secret'' ''RIFF'' JUndefined JUndefined JUndefined JUndefined
     = Resolved (JObject [(''msg_id'', JString ''m1''), (''_text'', JString ''hi''),
                          (''entities'', JObject []), (''code'', JNumber ''7'')])
   \<and> text' (parse_table [(''{"msg_id":"m1","_text":"hi","entities":{},"code":7}'',
                         JObject [(''msg_id'', JString ''m1''), (''_text'', JString ''hi''),
                                  (''entities'', JObject []), (''code'', JNumber ''7'')])])
          (answer JNull ''{"msg_id":"m1","_text":"hi","entities":{},"code":7}''
             :: string options \<Rightarrow> _)
          ''secret'' (JString ''hi'') JUndefined JUndefined JUndefined JUndefined JUndefined
     = Resolved (JObject [(''msg_id'', JString ''m1''), (''_text'', JString ''hi''),
                          (''entities'', JObject []), (''code'', JNumber ''7'')])\<close>
  using parsed_response_resolved
    [where error = JNull and body = \<open>''{"msg_id":"m1","_text":"hi","entities":{},"code":7}''\<close>
       and JSON_parse = \<open>parse_table [(''{"msg_id":"m1","_text":"hi","entities":{},"code":7}'',
                         JObject [(''msg_id'', JString ''m1''), (''_text'', JString ''hi''),
                                  (''entities'', JObject []), (''code'', JNumber ''7'')])]\<close>
       and response = "JObject [(''msg_id'', JString ''m1''), (''_text'', JString ''hi''),
                                  (''entities'', JObject []), (''code'', JNumber ''7'')]"
       and request = \<open>answer JNull ''{"msg_id":"m1","_text":"hi","entities":{},"code":7}''\<close>
       and res = "()" and token = "''secret''" and q = "JString ''hi''"
       and bin = "''RIFF''" and src = "''RIFF''"
       and ctx = JUndefined and msg_id = JUndefined and thread_id = JUndefined
       and n = JUndefined and verbose = JUndefined]
  by (simp add: parse_table_def answer_def has_field_def)

text \<open>
  Claim C3 as stated covers every well-formed JSON body without the pair. The body
  \<^verbatim>\<open>null\<close> is well-formed JSON and carries no field, but \<^verbatim>\<open>isError\<close> reads a
  property of it, which throws a TypeError: nothing is resolved.
\<close>

theorem null_response_uncaught:
  \<open>speech (parse_table [(''null'', JNull)]) (answer JNull ''null'')
          ''secret'' ''RIFF'' JUndefined JUndefined JUndefined JUndefined
     = Uncaught TypeError
   \<and> stream (parse_table [(''null'', JNull)]) (answer JNull ''null'')
          ''secret'' ''RIFF'' JUndefined JUndefined JUndefined JUndefined
     = Uncaught TypeError
   \<and> text' (parse_table [(''null'', JNull)]) (answer JNull ''null'' :: string options \<Rightarrow> _)
          ''secret'' (JString ''hi'') JUndefined JUndefined JUndefined JUndefined JUndefined
     = Uncaught TypeError\<close>
  by (simp add: speech_def stream_def text'_def speech_handler_def stream_handler_def
      text_handler_def parse_table_def answer_def isError_def)

subsection \<open>Transport errors\<close>

text \<open>A truthy first callback argument ends the handler at its first line.\<close>

lemma handler_transport_error:
  "truthy error \<Longrightarrow> speech_handler JSON_parse error res body = Rejected error"
  by (simp add: speech_handler_def)

text \<open>
  Claim C4. When the request layer reports an error (the callback's first argument is
  truthy: \<^verbatim>\<open>request\<close> passes an \<^verbatim>\<open>Error\<close> object, and null otherwise), each of
  \<^verbatim>\<open>speech\<close>, \<^verbatim>\<open>stream\<close> and \<^verbatim>\<open>text\<close> rejects with that very value, whatever
  \<^verbatim>\<open>JSON.parse\<close> would do with the body: the body is neither parsed nor inspected.
\<close>

theorem transport_error_rejected:
  fixes request :: "'b options \<Rightarrow> js_value \<times> 'r \<times> string"
  assumes "truthy error"
  shows "(request (speech_options token bin ctx msg_id thread_id n) = (error, res, body) \<longrightarrow>
            speech JSON_parse request token bin ctx msg_id thread_id n = Rejected error)
       \<and> (request (stream_options token src ctx msg_id thread_id n) = (error, res, body) \<longrightarrow>
            stream JSON_parse request token src ctx msg_id thread_id n = Rejected error)
       \<and> (request (text_options token q ctx msg_id thread_id n verbose) = (error, res, body) \<longrightarrow>
            text' JSON_parse request token q ctx msg_id thread_id n verbose = Rejected error)"
  using assms by (simp add: speech_run stream_run text_run handler_transport_error)

text \<open>
  A refused connection with an empty body, which \<^verbatim>\<open>JSON.parse\<close> would not accept, and
  a broken connection with a body that would parse.
\<close>

theorem transport_error_rejected_witness:
  \<open>speech (parse_table []) (answer (JError ''connect ECONNREFUSED'') [])
          ''secret'' ''RIFF'' JUndefined JUndefined JUndefined JUndefined
     = Rejected (JError ''connect ECONNREFUSED'')
   \<and> stream (parse_table []) (answer (JError ''connect ECONNREFUSED'') [])
          ''secret'' ''RIFF'' JUndefined JUndefined JUndefined JUndefined
     = Rejected (JError ''connect ECONNREFUSED'')
   \<and> text' (parse_table [(''{"_text":"hi"}'', JObject [(''_text'', JString ''hi'')])])
          (answer (JError ''socket hang up'') ''{"_text":"hi"}'' :: string options \<Rightarrow> _)
          ''secret'' (JString ''hi'') JUndefined JUndefined JUndefined JUndefined JUndefined
     = Rejected (JError ''socket hang up'')\<close>
  using transport_error_rejected
    [where error = "JError ''connect ECONNREFUSED''" and body = "[]"
       and JSON_parse = "parse_table []"
       and request = "answer (JError ''connect ECONNREFUSED'') []"
       and res = "()" and token = "''secret''"
       and bin = "''RIFF''" and src = "''RIFF''"
       and ctx = JUndefined and msg_id = JUndefined and thread_id = JUndefined
       and n = JUndefined]
    transport_error_rejected
    [where error = "JError ''socket hang up''" and body = \<open>''{"_text":"hi"}''\<close>
       and JSON_parse = \<open>parse_table [(''{"_text":"hi"}'', JObject [(''_text'', JString ''hi'')])]\<close>
       and request = \<open>answer (JError ''socket hang up'') ''{"_text":"hi"}'' :: string options \<Rightarrow> _\<close>
       and res = "()" and token = "''secret''" and q = "JString ''hi''"
       and ctx = JUndefined and msg_id = JUndefined and thread_id = JUndefined
       and n = JUndefined and verbose = JUndefined]
  by (simp add: answer_def)

subsection \<open>What counts as an API error\<close>

lemma string_field_has_field: "string_field res k \<Longrightarrow> has_field res k"
  by (auto simp: string_field_def has_field_def split: js_value.splits option.splits)

text \<open>
  Claim C5, as amended. A parsed response other than null is classified as an API error
  if and only if it is an object that has both an \<^verbatim>\<open>error\<close> field and a \<^verbatim>\<open>code\<close>
  field, whatever the types of their values; on null the classification throws. So a
  response with both fields as strings is an API error, and a response missing either
  field is not.
\<close>

theorem isError_iff_both_fields:
  "isError res =
     (if res = JUndefined \<or> res = JNull then Throw TypeError
      else Normal (has_field res ''error'' \<and> has_field res ''code''))
   \<and> (spec_error_shape res \<longrightarrow> isError res = Normal True)"
proof -
  have 1: "isError res =
     (if res = JUndefined \<or> res = JNull then Throw TypeError
      else Normal (has_field res ''error'' \<and> has_field res ''code''))"
    by (cases res) (auto simp: isError_def has_field_def split: option.splits)
  have "spec_error_shape res \<Longrightarrow> res \<noteq> JUndefined \<and> res \<noteq> JNull"
    by (auto simp: spec_error_shape_def string_field_def)
  with 1 show ?thesis
    by (auto simp: spec_error_shape_def dest: string_field_has_field)
qed

text \<open>Both fields, one field, neither field, and null.\<close>

theorem isError_iff_both_fields_witness:
  "isError (JObject [(''code'', JString ''bad-auth''), (''error'', JString ''invalid token'')])
     = Normal True
   \<and> isError (JObject [(''code'', JString ''bad-auth'')]) = Normal False
   \<and> isError (JObject [(''error'', JString ''invalid token'')]) = Normal False
   \<and> isError (JArray []) = Normal False
   \<and> isError JNull = Throw TypeError"
  using isError_iff_both_fields
      [of "JObject [(''code'', JString ''bad-auth''), (''error'', JString ''invalid token'')]"]
    isError_iff_both_fields [of "JObject [(''code'', JString ''bad-auth'')]"]
    isError_iff_both_fields [of "JObject [(''error'', JString ''invalid token'')]"]
    isError_iff_both_fields [of "JArray []"]
    isError_iff_both_fields [of JNull]
  by (simp add: has_field_def spec_error_shape_def string_field_def)

text \<open>
  Claim C5 as stated makes string values necessary. The response
  \<^verbatim>\<open>{"error":null,"code":401}\<close> has no string in either field, and \<^verbatim>\<open>isError\<close>
  classifies it as an API error: \<^verbatim>\<open>null !== undefined\<close> and \<^verbatim>\<open>401 !== undefined\<close>.
\<close>

theorem isError_without_strings:
  "isError (JObject [(''error'', JNull), (''code'', JNumber ''401'')]) = Normal True
   \<and> \<not> spec_error_shape (JObject [(''error'', JNull), (''code'', JNumber ''401'')])"
  by (simp add: isError_def spec_error_shape_def string_field_def)

subsection \<open>The requests that are built\<close>

text \<open>
  Claim C6. \<^verbatim>\<open>text\<close> builds a GET request to the message endpoint whose query
  parameters are exactly \<^verbatim>\<open>q\<close>, \<^verbatim>\<open>context\<close>, \<^verbatim>\<open>msg_id\<close>, \<^verbatim>\<open>n\<close> and \<^verbatim>\<open>verbose\<close>, with
  the arguments as their values, and which has no body. \<^verbatim>\<open>speech\<close> and \<^verbatim>\<open>stream\<close> build
  POST requests to the speech endpoint whose body is the audio argument; their query
  parameters are \<^verbatim>\<open>context\<close>, \<^verbatim>\<open>msg_id\<close> and \<^verbatim>\<open>n\<close>, the same for any two audio
  arguments. These options are what each operation hands to \<^verbatim>\<open>request\<close>, whatever the
  transport: the outcome of the operation is its handler run on the transport's answer
  to them.
\<close>

theorem text_get_audio_post:
  "method' (text_options token q ctx msg_id thread_id n verbose) = ''GET''
   \<and> url (text_options token q ctx msg_id thread_id n verbose) = ''https://api.wit.ai/message''
   \<and> qs (text_options token q ctx msg_id thread_id n verbose)
       = [(''q'', q), (''context'', ctx), (''msg_id'', msg_id), (''n'', n), (''verbose'', verbose)]
   \<and> body' (text_options token q ctx msg_id thread_id n verbose) = None
   \<and> method' (speech_options token bin ctx msg_id thread_id n) = ''POST''
   \<and> url (speech_options token bin ctx msg_id thread_id n) = ''https://api.wit.ai/speech''
   \<and> body' (speech_options token bin ctx msg_id thread_id n) = Some bin
   \<and> qs (speech_options token bin ctx msg_id thread_id n)
       = [(''context'', ctx), (''msg_id'', msg_id), (''n'', n)]
   \<and> qs (speech_options token bin ctx msg_id thread_id n)
       = qs (speech_options token bin2 ctx msg_id thread_id n)
   \<and> method' (stream_options token src ctx msg_id thread_id n) = ''POST''
   \<and> url (stream_options token src ctx msg_id thread_id n) = ''https://api.wit.ai/speech''
   \<and> body' (stream_options token src ctx msg_id thread_id n) = Some src
   \<and> qs (stream_options token src ctx msg_id thread_id n)
       = [(''context'', ctx), (''msg_id'', msg_id), (''n'', n)]
   \<and> qs (stream_options token src ctx msg_id thread_id n)
       = qs (stream_options token src2 ctx msg_id thread_id n)
   \<and> text' JSON_parse request token q ctx msg_id thread_id n verbose
       = (case request (text_options token q ctx msg_id thread_id n verbose) of
            (error, res, body) \<Rightarrow> text_handler JSON_parse error res body)
   \<and> speech JSON_parse request token bin ctx msg_id thread_id n
       = (case request (speech_options token bin ctx msg_id thread_id n) of
            (error, res, body) \<Rightarrow> speech_handler JSON_parse error res body)
   \<and> stream JSON_parse request token src ctx msg_id thread_id n
       = (case request (stream_options token src ctx msg_id thread_id n) of
            (error, res, body) \<Rightarrow> stream_handler JSON_parse error res body)"
  by (simp add: text_options_def speech_options_def stream_options_def speech_def stream_def
      text'_def)

text \<open>
  Claim C7. The request of \<^verbatim>\<open>stream\<close> has the header
  \<^verbatim>\<open>Transfer-encoding: chunked\<close>. The request of \<^verbatim>\<open>speech\<close> has the three headers
  \<^verbatim>\<open>Content-Type\<close>, \<^verbatim>\<open>Authorization\<close> and \<^verbatim>\<open>Accept\<close> and no other, and none of their
  values is \<^verbatim>\<open>chunked\<close>. Each operation hands these very options to \<^verbatim>\<open>request\<close>.
\<close>

theorem chunked_only_in_stream:
  "map_of (headers (stream_options token src ctx msg_id thread_id n)) ''Transfer-encoding''
     = Some ''chunked''
   \<and> map fst (headers (speech_options token bin ctx msg_id thread_id n))
       = [''Content-Type'', ''Authorization'', ''Accept'']
   \<and> map_of (headers (speech_options token bin ctx msg_id thread_id n)) ''Transfer-encoding''
       = None
   \<and> ''chunked'' \<notin> set (map snd (headers (speech_options token bin ctx msg_id thread_id n)))
   \<and> speech JSON_parse request token bin ctx msg_id thread_id n
       = (case request (speech_options token bin ctx msg_id thread_id n) of
            (error, res, body) \<Rightarrow> speech_handler JSON_parse error res body)
   \<and> stream JSON_parse request token src ctx msg_id thread_id n
       = (case request (stream_options token src ctx msg_id thread_id n) of
            (error, res, body) \<Rightarrow> stream_handler JSON_parse error res body)"
  by (simp add: speech_options_def stream_options_def speech_def stream_def)

text \<open>
  Claim C8. For equal credential, context, message id, thread id and count, the
  requests of \<^verbatim>\<open>stream\<close> and \<^verbatim>\<open>speech\<close> have the same URL, method and query
  parameters; the headers of \<^verbatim>\<open>stream\<close> are those of \<^verbatim>\<open>speech\<close> with
  \<^verbatim>\<open>Transfer-encoding: chunked\<close> inserted after the first; each body is the operation's
  own audio argument. Given the same audio argument, the options of \<^verbatim>\<open>stream\<close> are
  those of \<^verbatim>\<open>speech\<close> with the headers replaced. The two handlers are the same
  function of the parser, the transport error and the response body. Each operation
  hands its options to \<^verbatim>\<open>request\<close>, and the outcome of either is the handler of
  \<^verbatim>\<open>speech\<close> run on the transport's answer.
\<close>

theorem stream_is_speech_chunked:
  "url (stream_options token src ctx msg_id thread_id n)
     = url (speech_options token bin ctx msg_id thread_id n)
   \<and> method' (stream_options token src ctx msg_id thread_id n)
       = method' (speech_options token bin ctx msg_id thread_id n)
   \<and> qs (stream_options token src ctx msg_id thread_id n)
       = qs (speech_options token bin ctx msg_id thread_id n)
   \<and> headers (speech_options token bin ctx msg_id thread_id n)
       = [(''Content-Type'', ''audio/wav''), (''Authorization'', ''Bearer '' @ token),
          (''Accept'', ''application/json'')]
   \<and> headers (stream_options token src ctx msg_id thread_id n)
       = [(''Content-Type'', ''audio/wav''), (''Transfer-encoding'', ''chunked''),
          (''Authorization'', ''Bearer '' @ token), (''Accept'', ''application/json'')]
   \<and> body' (speech_options token bin ctx msg_id thread_id n) = Some bin
   \<and> body' (stream_options token src ctx msg_id thread_id n) = Some src
   \<and> stream_options token bin ctx msg_id thread_id n
       = (speech_options token bin ctx msg_id thread_id n)
           \<lparr> headers := [(''Content-Type'', ''audio/wav''), (''Transfer-encoding'', ''chunked''),
                         (''Authorization'', ''Bearer '' @ token),
                         (''Accept'', ''application/json'')] \<rparr>
   \<and> stream_handler JSON_parse error res body = speech_handler JSON_parse error res body
   \<and> speech JSON_parse request token bin ctx msg_id thread_id n
       = (case request (speech_options token bin ctx msg_id thread_id n) of
            (error, res, body) \<Rightarrow> speech_handler JSON_parse error res body)
   \<and> stream JSON_parse request2 token src ctx msg_id thread_id n
       = (case request2 (stream_options token src ctx msg_id thread_id n) of
            (error, res, body) \<Rightarrow> speech_handler JSON_parse error res body)"
  by (simp add: speech_options_def stream_options_def speech_def stream_def
      stream_handler_eq [where res' = res for res] split: prod.splits)

text \<open>
  Claim C9. \<^verbatim>\<open>speech\<close> and \<^verbatim>\<open>stream\<close> build a POST to
  \<^verbatim>\<open>https://api.wit.ai/speech\<close> with \<^verbatim>\<open>Content-Type: audio/wav\<close>,
  \<^verbatim>\<open>Authorization: Bearer\<close> followed by the credential and
  \<^verbatim>\<open>Accept: application/json\<close>, and the query parameters \<^verbatim>\<open>context\<close>, \<^verbatim>\<open>msg_id\<close> and
  \<^verbatim>\<open>n\<close>. \<^verbatim>\<open>text\<close> builds a GET to \<^verbatim>\<open>https://api.wit.ai/message\<close> with the headers
  \<^verbatim>\<open>Authorization: Bearer\<close> followed by the credential and \<^verbatim>\<open>Accept: application/json\<close>.
  The last three parts of the statement write out, field by field, the options object
  each operation hands to \<^verbatim>\<open>request\<close>.
\<close>

theorem endpoints_and_headers:
  "url (speech_options token bin ctx msg_id thread_id n) = ''https://api.wit.ai/speech''
   \<and> method' (speech_options token bin ctx msg_id thread_id n) = ''POST''
   \<and> headers (speech_options token bin ctx msg_id thread_id n)
       = [(''Content-Type'', ''audio/wav''), (''Authorization'', ''Bearer '' @ token),
          (''Accept'', ''application/json'')]
   \<and> map fst (qs (speech_options token bin ctx msg_id thread_id n)) = [''context'', ''msg_id'', ''n'']
   \<and> url (stream_options token src ctx msg_id thread_id n) = ''https://api.wit.ai/speech''
   \<and> method' (stream_options token src ctx msg_id thread_id n) = ''POST''
   \<and> map_of (headers (stream_options token src ctx msg_id thread_id n)) ''Content-Type''
       = Some ''audio/wav''
   \<and> map_of (headers (stream_options token src ctx msg_id thread_id n)) ''Authorization''
       = Some (''Bearer '' @ token)
   \<and> map_of (headers (stream_options token src ctx msg_id thread_id n)) ''Accept''
       = Some ''application/json''
   \<and> map fst (qs (stream_options token src ctx msg_id thread_id n)) = [''context'', ''msg_id'', ''n'']
   \<and> url (text_options token q ctx msg_id thread_id n verbose) = ''https://api.wit.ai/message''
   \<and> method' (text_options token q ctx msg_id thread_id n verbose) = ''GET''
   \<and> headers (text_options token q ctx msg_id thread_id n verbose)
       = [(''Authorization'', ''Bearer '' @ token), (''Accept'', ''application/json'')]
   \<and> speech JSON_parse request token bin ctx msg_id thread_id n
       = (case request
                 \<lparr> url = ''https://api.wit.ai/speech'', method' = ''POST'',
                   headers = [(''Content-Type'', ''audio/wav''),
                              (''Authorization'', ''Bearer '' @ token),
                              (''Accept'', ''application/json'')],
                   qs = [(''context'', ctx), (''msg_id'', msg_id), (''n'', n)],
                   body' = Some bin \<rparr> of
            (error, res, body) \<Rightarrow> speech_handler JSON_parse error res body)
   \<and> stream JSON_parse request token src ctx msg_id thread_id n
       = (case request
                 \<lparr> url = ''https://api.wit.ai/speech'', method' = ''POST'',
                   headers = [(''Content-Type'', ''audio/wav''),
                              (''Transfer-encoding'', ''chunked''),
                              (''Authorization'', ''Bearer '' @ token),
                              (''Accept'', ''application/json'')],
                   qs = [(''context'', ctx), (''msg_id'', msg_id), (''n'', n)],
                   body' = Some src \<rparr> of
            (error, res, body) \<Rightarrow> stream_handler JSON_parse error res body)
   \<and> text' JSON_parse request token q ctx msg_id thread_id n verbose
       = (case request
                 \<lparr> url = ''https://api.wit.ai/message'', method' = ''GET'',
                   headers = [(''Authorization'', ''Bearer '' @ token),
                              (''Accept'', ''application/json'')],
                   qs = [(''q'', q), (''context'', ctx), (''msg_id'', msg_id), (''n'', n),
                         (''verbose'', verbose)],
                   body' = None \<rparr> of
            (error, res, body) \<Rightarrow> text_handler JSON_parse error res body)"
  by (simp add: text_options_def speech_options_def stream_options_def speech_def stream_def
      text'_def)

text \<open>
  Claim C10. Two invocations of the same operation that differ only in \<^verbatim>\<open>thread_id\<close>
  build the same options (URL, method, headers, query parameters, body), and so have the
  same outcome on the same transport: the argument is never used.
\<close>

theorem thread_id_unused:
  "speech_options token bin ctx msg_id thread_id n = speech_options token bin ctx msg_id thread_id2 n
   \<and> stream_options token src ctx msg_id thread_id n = stream_options token src ctx msg_id thread_id2 n
   \<and> text_options token q ctx msg_id thread_id n verbose
       = text_options token q ctx msg_id thread_id2 n verbose
   \<and> speech JSON_parse request token bin ctx msg_id thread_id n
       = speech JSON_parse request token bin ctx msg_id thread_id2 n
   \<and> stream JSON_parse request token src ctx msg_id thread_id n
       = stream JSON_parse request token src ctx msg_id thread_id2 n
   \<and> text' JSON_parse request token q ctx msg_id thread_id n verbose
       = text' JSON_parse request token q ctx msg_id thread_id2 n verbose"
  by (simp add: text_options_def speech_options_def stream_options_def speech_def stream_def
      text'_def)

end
